theory Spec2Isabelle
  imports Complex_Main "HOL-Library.Stream"
begin

section \<open>Inventory management simulator: the model of src/main.py\<close>

text \<open>
  The program computes an economic order quantity and a reorder point and then runs a
  day-stepped inventory simulation (\<^verbatim>\<open>run_simulation\<close>). The embedding follows the
  source line by line.

  Numbers. The widgets hand the program Python integers; \<^verbatim>\<open>np.sqrt\<close> and
  \<^verbatim>\<open>norm.ppf\<close> return floating-point numbers, so \<^verbatim>\<open>reorder_point\<close>,
  \<^verbatim>\<open>order_quantity\<close>, and with them \<^verbatim>\<open>inventory\<close> and \<^verbatim>\<open>on_order\<close>, hold
  floats. Integers are modelled as \<open>int\<close>, floats as \<open>real\<close>: rounding, infinities
  and NaN are not modelled.

  Exceptions are values of the type \<open>error\<close>; a function that can raise returns
  \<open>error + 'a\<close>, with \<open>Inl\<close> for the exception.
\<close>

datatype error = ValueError | ZeroDivisionError

subsection \<open>The random source\<close>

text \<open>
  \<^verbatim>\<open>random.randint(a, b)\<close> reads the module-wide generator and advances it. The
  generator is modelled as the stream of raw numbers it will produce; a draw consumes the
  head. \<^verbatim>\<open>randint\<close> returns an integer \<open>N\<close> with \<open>a \<le> N \<le> b\<close> and raises
  \<^verbatim>\<open>ValueError\<close> on an empty range (\<open>b < a\<close>). Every integer of the range is the
  result for some raw number.
\<close>

type_synonym random_source = "nat stream"

definition randint :: "int \<Rightarrow> int \<Rightarrow> random_source \<Rightarrow> error + (int \<times> random_source)" where
  "randint a b r =
     (if b < a then Inl ValueError
      else Inr (a + int (shd r mod nat (b - a + 1)), stl r))"

subsection \<open>The policy formulas\<close>

text \<open>
  \<^verbatim>\<open>calculate_eoq\<close> (lines 34-35): the arguments are the integers of the widgets, and
  \<^verbatim>\<open>/\<close> on Python integers raises \<^verbatim>\<open>ZeroDivisionError\<close> for a zero divisor.
\<close>

definition calculate_eoq :: "int \<Rightarrow> int \<Rightarrow> int \<Rightarrow> error + real" where
  "calculate_eoq demand order_cost holding_cost =
     (if holding_cost = 0 then Inl ZeroDivisionError
      else Inr (sqrt (real_of_int (2 * demand * order_cost) / real_of_int holding_cost)))"

text \<open>
  \<^verbatim>\<open>calculate_reorder_point\<close> (lines 38-41). \<^verbatim>\<open>norm.ppf\<close> is SciPy's inverse of the
  standard normal distribution function; it is not code of this repository, so it is the
  parameter \<open>ppf\<close> of the model.
\<close>

definition calculate_reorder_point ::
    "(real \<Rightarrow> real) \<Rightarrow> real \<Rightarrow> real \<Rightarrow> real \<Rightarrow> real \<Rightarrow> real" where
  "calculate_reorder_point ppf avg_daily lead_time service_level demand_std =
     (let z_score = ppf service_level;
          safety_stock = z_score * demand_std * sqrt lead_time
      in (avg_daily * lead_time) + safety_stock)"

subsection \<open>The simulation state\<close>

text \<open>
  The local variables of \<^verbatim>\<open>run_simulation\<close> (lines 45-49), and the random source the
  loop reads.
\<close>

record sim_state =
  inventory :: real
  on_order :: real
  days_until_delivery :: int
  stockouts :: int
  inventory_levels :: "real list"
  rng :: random_source

text \<open>
  What the loop reads and never writes: the module-level \<^verbatim>\<open>avg_daily_demand\<close> and
  \<^verbatim>\<open>demand_std\<close>, and the arguments \<^verbatim>\<open>reorder_point\<close>, \<^verbatim>\<open>order_quantity\<close> and
  \<^verbatim>\<open>lead_time\<close>.
\<close>

record env =
  avg_daily_demand :: int
  demand_std :: int
  reorder_point :: real
  order_quantity :: real
  lead_time :: int

subsection \<open>One day of the loop\<close>

text \<open>Lines 52-55: the demand of the day.\<close>

definition draw_demand :: "env \<Rightarrow> random_source \<Rightarrow> error + (int \<times> random_source)" where
  "draw_demand e r =
     randint (max 1 (avg_daily_demand e - 2 * demand_std e))
             (avg_daily_demand e + 2 * demand_std e) r"

text \<open>Lines 57-59: the delivery check.\<close>

definition delivery_check :: "sim_state \<Rightarrow> sim_state" where
  "delivery_check s =
     (if days_until_delivery s = 1
      then s\<lparr>inventory := inventory s + on_order s, on_order := 0\<rparr>
      else s)"

text \<open>Lines 61-65: the demand is served in full, or the day is a stockout.\<close>

definition fulfil :: "int \<Rightarrow> sim_state \<Rightarrow> sim_state" where
  "fulfil demand s =
     (if inventory s \<ge> real_of_int demand
      then s\<lparr>inventory := inventory s - real_of_int demand\<rparr>
      else s\<lparr>stockouts := stockouts s + 1, inventory := 0\<rparr>)"

text \<open>Lines 67-71: the reorder decision.\<close>

definition reorder_decision :: "env \<Rightarrow> sim_state \<Rightarrow> sim_state" where
  "reorder_decision e s =
     (if inventory s \<le> reorder_point e \<and> on_order s = 0
      then s\<lparr>on_order := order_quantity e, days_until_delivery := lead_time e\<rparr>
      else if days_until_delivery s > 0
      then s\<lparr>days_until_delivery := days_until_delivery s - 1\<rparr>
      else s)"

text \<open>Line 73: the level of the day is appended to the trajectory.\<close>

definition record_level :: "sim_state \<Rightarrow> sim_state" where
  "record_level s = s\<lparr>inventory_levels := inventory_levels s @ [inventory s]\<rparr>"

text \<open>Lines 57-73 for a demand already drawn.\<close>

definition day_transition :: "env \<Rightarrow> int \<Rightarrow> sim_state \<Rightarrow> sim_state" where
  "day_transition e demand s =
     record_level (reorder_decision e (fulfil demand (delivery_check s)))"

text \<open>
  Lines 52-73, the body of the loop: the demand is drawn first, then the day's
  transition runs. An exception of the draw leaves the loop.
\<close>

definition loop_body :: "env \<Rightarrow> sim_state \<Rightarrow> error + sim_state" where
  "loop_body e s =
     (case draw_demand e (rng s) of
        Inl x \<Rightarrow> Inl x
      | Inr (demand, r) \<Rightarrow> Inr (day_transition e demand (s\<lparr>rng := r\<rparr>)))"

subsection \<open>The loop and the function\<close>

text \<open>\<^verbatim>\<open>for day in range(days)\<close>: \<open>n\<close> more iterations from the state \<open>s\<close>.\<close>

fun day_loop :: "env \<Rightarrow> nat \<Rightarrow> sim_state \<Rightarrow> error + sim_state" where
  "day_loop e 0 s = Inr s"
| "day_loop e (Suc n) s =
     (case loop_body e s of
        Inl x \<Rightarrow> Inl x
      | Inr s' \<Rightarrow> day_loop e n s')"

text \<open>Lines 45-49: the state before the first day.\<close>

definition initial_state :: "int \<Rightarrow> random_source \<Rightarrow> sim_state" where
  "initial_state initial_stock r =
     \<lparr>inventory = real_of_int initial_stock, on_order = 0, days_until_delivery = 0,
      stockouts = 0, inventory_levels = [], rng = r\<rparr>"

text \<open>
  The state of \<^verbatim>\<open>run_simulation\<close> after the first \<open>k\<close> iterations of its loop.
  The first three arguments are what the function reads from outside: the two
  module-level numbers and the random source.
\<close>

definition state_after ::
    "int \<Rightarrow> int \<Rightarrow> random_source \<Rightarrow> int \<Rightarrow> real \<Rightarrow> real \<Rightarrow> int \<Rightarrow> nat
      \<Rightarrow> error + sim_state" where
  "state_after avg std r initial_stock rop qty lt k =
     day_loop \<lparr>avg_daily_demand = avg, demand_std = std, reorder_point = rop,
                order_quantity = qty, lead_time = lt\<rparr>
              k (initial_state initial_stock r)"

text \<open>
  \<^verbatim>\<open>run_simulation\<close> (lines 44-75): the loop runs \<^verbatim>\<open>range(days)\<close>, which is empty
  for \<open>days \<le> 0\<close>, and the function returns the trajectory and the stockout count.
\<close>

definition run_simulation ::
    "int \<Rightarrow> int \<Rightarrow> random_source \<Rightarrow> int \<Rightarrow> int \<Rightarrow> real \<Rightarrow> real \<Rightarrow> int
      \<Rightarrow> error + (real list \<times> int)" where
  "run_simulation avg std r days initial_stock rop qty lt =
     (case state_after avg std r initial_stock rop qty lt (nat days) of
        Inl x \<Rightarrow> Inl x
      | Inr s \<Rightarrow> Inr (inventory_levels s, stockouts s))"

subsection \<open>The reference transition of the specification\<close>

text \<open>
  The specification lists the day's five steps in this order: delivery check, demand
  draw, demand fulfillment, reorder decision, record. The definitions below follow the
  specification's words, step by step, with the delivery check before the demand draw;
  the demand generator is the one of the program.
\<close>

definition reference_transition :: "env \<Rightarrow> sim_state \<Rightarrow> error + sim_state" where
  "reference_transition e s =
     (let (inv1, ord1) =
            (if days_until_delivery s = 1 then (inventory s + on_order s, 0)
             else (inventory s, on_order s))
      in case draw_demand e (rng s) of
           Inl x \<Rightarrow> Inl x
         | Inr (demand, r) \<Rightarrow>
             (let (inv2, count2) =
                    (if inv1 \<ge> real_of_int demand then (inv1 - real_of_int demand, stockouts s)
                     else (0, stockouts s + 1));
                  (ord3, days3) =
                    (if inv2 \<le> reorder_point e \<and> ord1 = 0
                     then (order_quantity e, lead_time e)
                     else if days_until_delivery s > 0
                     then (ord1, days_until_delivery s - 1)
                     else (ord1, days_until_delivery s))
              in Inr \<lparr>inventory = inv2, on_order = ord3, days_until_delivery = days3,
                      stockouts = count2, inventory_levels = inventory_levels s @ [inv2],
                      rng = r\<rparr>))"

fun reference_loop :: "env \<Rightarrow> nat \<Rightarrow> sim_state \<Rightarrow> error + sim_state" where
  "reference_loop e 0 s = Inr s"
| "reference_loop e (Suc n) s =
     (case reference_transition e s of
        Inl x \<Rightarrow> Inl x
      | Inr s' \<Rightarrow> reference_loop e n s')"

definition reference_run ::
    "int \<Rightarrow> int \<Rightarrow> random_source \<Rightarrow> int \<Rightarrow> int \<Rightarrow> real \<Rightarrow> real \<Rightarrow> int
      \<Rightarrow> error + (real list \<times> int)" where
  "reference_run avg std r days initial_stock rop qty lt =
     (case reference_loop \<lparr>avg_daily_demand = avg, demand_std = std, reorder_point = rop,
                            order_quantity = qty, lead_time = lt\<rparr>
                          (nat days) (initial_state initial_stock r) of
        Inl x \<Rightarrow> Inl x
      | Inr s \<Rightarrow> Inr (inventory_levels s, stockouts s))"

section \<open>Properties\<close>

subsection \<open>The demand draw\<close>

lemma randint_range:
  "randint a b r = Inr (d, r') \<Longrightarrow> a \<le> d \<and> d \<le> b"
proof -
  assume h: "randint a b r = Inr (d, r')"
  then have ab: "a \<le> b" by (auto simp: randint_def split: if_splits)
  from h ab have d: "d = a + int (shd r mod nat (b - a + 1))"
    by (auto simp: randint_def)
  have "shd r mod nat (b - a + 1) < nat (b - a + 1)"
    using ab by (intro mod_less_divisor) simp
  with d ab show ?thesis by linarith
qed

lemma randint_total:
  "a \<le> b \<Longrightarrow> randint a b r = Inr (a + int (shd r mod nat (b - a + 1)), stl r)"
  by (simp add: randint_def)

lemma draw_demand_bounds:
  "draw_demand e r = Inr (d, r') \<Longrightarrow>
     max 1 (avg_daily_demand e - 2 * demand_std e) \<le> d \<and>
     d \<le> avg_daily_demand e + 2 * demand_std e"
  unfolding draw_demand_def by (rule randint_range)

lemma draw_demand_rest:
  "draw_demand e r = Inr (d, r') \<Longrightarrow> r' = stl r"
  by (auto simp: draw_demand_def randint_def split: if_splits)

lemma draw_demand_total:
  "max 1 (avg_daily_demand e - 2 * demand_std e) \<le> avg_daily_demand e + 2 * demand_std e \<Longrightarrow>
     \<exists>d. draw_demand e r = Inr (d, stl r)"
  unfolding draw_demand_def by (simp add: randint_total)


subsection \<open>The body of the loop\<close>

lemma loop_body_InrD:
  assumes "loop_body e s = Inr s'"
  obtains d where "draw_demand e (rng s) = Inr (d, stl (rng s))"
    and "s' = day_transition e d (s\<lparr>rng := stl (rng s)\<rparr>)"
proof -
  from assms obtain d r where dr: "draw_demand e (rng s) = Inr (d, r)"
    and s': "s' = day_transition e d (s\<lparr>rng := r\<rparr>)"
    by (auto simp: loop_body_def split: sum.splits)
  from dr have "r = stl (rng s)" by (rule draw_demand_rest)
  with dr s' that show thesis by simp
qed

lemma loop_body_total:
  "max 1 (avg_daily_demand e - 2 * demand_std e) \<le> avg_daily_demand e + 2 * demand_std e \<Longrightarrow>
     \<exists>s'. loop_body e s = Inr s'"
  using draw_demand_total [of e "rng s"] by (auto simp: loop_body_def)


lemma day_transition_levels:
  "inventory_levels (day_transition e d s) =
     inventory_levels s @ [inventory (day_transition e d s)]"
  by (simp add: day_transition_def record_level_def reorder_decision_def fulfil_def
      delivery_check_def)

lemma day_transition_inventory_nonneg:
  "0 \<le> inventory (day_transition e d s)"
  by (simp add: day_transition_def record_level_def reorder_decision_def fulfil_def
      delivery_check_def)

lemma day_transition_stockouts:
  "stockouts (day_transition e d s) = stockouts s \<or>
   stockouts (day_transition e d s) = stockouts s + 1 \<and> inventory (day_transition e d s) = 0"
  by (simp add: day_transition_def record_level_def reorder_decision_def fulfil_def
      delivery_check_def)

subsection \<open>The loop\<close>

lemma day_loop_add:
  "day_loop e (m + n) s =
     (case day_loop e m s of Inl x \<Rightarrow> Inl x | Inr s' \<Rightarrow> day_loop e n s')"
  by (induction m arbitrary: s) (auto split: sum.splits)

lemma day_loop_Suc_end:
  "day_loop e (Suc m) s =
     (case day_loop e m s of Inl x \<Rightarrow> Inl x | Inr s' \<Rightarrow> loop_body e s')"
  using day_loop_add [of e m 1 s] by (auto split: sum.splits)

lemma day_loop_total:
  "max 1 (avg_daily_demand e - 2 * demand_std e) \<le> avg_daily_demand e + 2 * demand_std e \<Longrightarrow>
     \<exists>s'. day_loop e n s = Inr s'"
proof (induction n arbitrary: s)
  case 0
  show ?case by simp
next
  case (Suc n)
  from loop_body_total [OF Suc.prems] obtain s1 where "loop_body e s = Inr s1" by blast
  with Suc.IH [OF Suc.prems, of s1] show ?case by simp
qed

lemma day_loop_numeral:
  "day_loop e (numeral k) s =
     (case loop_body e s of Inl x \<Rightarrow> Inl x | Inr s' \<Rightarrow> day_loop e (pred_numeral k) s')"
  by (simp add: numeral_eq_Suc)


text \<open>
  Every iteration appends one level and keeps the levels before it; the stockout count
  grows by at most one a day.
\<close>

lemma day_loop_levels_stockouts:
  "day_loop e n s = Inr s' \<Longrightarrow>
     length (inventory_levels s') = length (inventory_levels s) + n \<and>
     take (length (inventory_levels s)) (inventory_levels s') = inventory_levels s \<and>
     stockouts s \<le> stockouts s' \<and> stockouts s' \<le> stockouts s + int n"
proof (induction n arbitrary: s)
  case 0
  then show ?case by simp
next
  case (Suc n)
  from Suc.prems obtain s1 where b: "loop_body e s = Inr s1" and l: "day_loop e n s1 = Inr s'"
    by (auto split: sum.splits)
  from b obtain d where s1: "s1 = day_transition e d (s\<lparr>rng := stl (rng s)\<rparr>)"
    by (rule loop_body_InrD)
  have lv: "inventory_levels s1 = inventory_levels s @ [inventory s1]"
    unfolding s1 using day_transition_levels [of e d "s\<lparr>rng := stl (rng s)\<rparr>"] by simp
  have st: "stockouts s \<le> stockouts s1 \<and> stockouts s1 \<le> stockouts s + 1"
    unfolding s1 using day_transition_stockouts [of e d "s\<lparr>rng := stl (rng s)\<rparr>"] by auto
  from Suc.IH [OF l] have ih:
    "length (inventory_levels s') = length (inventory_levels s1) + n"
    "take (length (inventory_levels s1)) (inventory_levels s') = inventory_levels s1"
    "stockouts s1 \<le> stockouts s'" "stockouts s' \<le> stockouts s1 + int n"
    by simp_all
  have "take (length (inventory_levels s)) (inventory_levels s') =
        take (length (inventory_levels s))
          (take (length (inventory_levels s1)) (inventory_levels s'))"
    by (simp add: lv min_def)
  also have "\<dots> = inventory_levels s" unfolding ih(2) by (simp add: lv)
  finally have tk:
    "take (length (inventory_levels s)) (inventory_levels s') = inventory_levels s" .
  from ih st lv tk show ?case by simp
qed

text \<open>
  An invariant of the day's transition, for every demand the generator can draw, holds
  after any number of iterations.
\<close>

lemma day_loop_invariant:
  assumes step: "\<And>d t. I t \<Longrightarrow> 1 \<le> d \<Longrightarrow> I (day_transition e d (t\<lparr>rng := stl (rng t)\<rparr>))"
    and "I s" and "day_loop e n s = Inr s'"
  shows "I s'"
  using assms(2,3)
proof (induction n arbitrary: s)
  case 0
  then show ?case by simp
next
  case (Suc n)
  from Suc.prems(2) obtain s1 where b: "loop_body e s = Inr s1" and l: "day_loop e n s1 = Inr s'"
    by (auto split: sum.splits)
  from b obtain d where dd: "draw_demand e (rng s) = Inr (d, stl (rng s))"
    and s1: "s1 = day_transition e d (s\<lparr>rng := stl (rng s)\<rparr>)"
    by (rule loop_body_InrD)
  from draw_demand_bounds [OF dd] have "1 \<le> d" by simp
  with step Suc.prems(1) s1 have "I s1" by simp
  with Suc.IH l show ?case by simp
qed

text \<open>The equations that evaluate a run on concrete inputs.\<close>

lemmas body_defs = loop_body_def draw_demand_def randint_def day_transition_def
  record_level_def reorder_decision_def fulfil_def delivery_check_def

lemmas run_defs = run_simulation_def state_after_def initial_state_def day_loop_numeral

section \<open>The claims\<close>

subsection \<open>C1: the day an order arrives\<close>

text \<open>
  C1, as stated: with \<open>lead_time = 3\<close> and \<open>order_quantity > 0\<close>, an order placed on day
  \<open>d\<close> arrives on day \<open>d + 2\<close>. It does not. Demand is 50 a day; the order of 500 is
  placed on day 0 (state after one day). After day 2 the order is still outstanding and the
  inventory is 0: nothing has arrived. The order arrives on day 3.
\<close>

theorem order_not_delivered_two_days_after:
  "state_after 50 0 (sconst 0) 100 60 500 3 1 =
     Inr \<lparr>inventory = 50, on_order = 500, days_until_delivery = 3, stockouts = 0,
          inventory_levels = [50], rng = sconst 0\<rparr> \<and>
   state_after 50 0 (sconst 0) 100 60 500 3 2 =
     Inr \<lparr>inventory = 0, on_order = 500, days_until_delivery = 2, stockouts = 0,
          inventory_levels = [50, 0], rng = sconst 0\<rparr> \<and>
   state_after 50 0 (sconst 0) 100 60 500 3 3 =
     Inr \<lparr>inventory = 0, on_order = 500, days_until_delivery = 1, stockouts = 1,
          inventory_levels = [50, 0, 0], rng = sconst 0\<rparr> \<and>
   state_after 50 0 (sconst 0) 100 60 500 3 4 =
     Inr \<lparr>inventory = 450, on_order = 0, days_until_delivery = 0, stockouts = 1,
          inventory_levels = [50, 0, 0, 450], rng = sconst 0\<rparr> \<and>
   run_simulation 50 0 (sconst 0) 4 100 60 500 3 = Inr ([50, 0, 0, 450], 1)"
  by (simp add: run_defs body_defs)


text \<open>
  C1, amended: the branch that places the order does not count down, so the countdown is
  3 after day \<open>d\<close>, 2 after day \<open>d + 1\<close> and 1 after day \<open>d + 2\<close>. With \<open>s1\<close>, \<open>s2\<close>,
  \<open>s3\<close> the states after the days \<open>d\<close>, \<open>d + 1\<close>, \<open>d + 2\<close>, for any demands and any
  random source: the delivery checks of the days \<open>d + 1\<close> and \<open>d + 2\<close> change nothing, and
  the delivery check of day \<open>d + 3\<close> adds the order quantity to the inventory and resets
  \<open>on_order\<close> to 0. The order arrives exactly on day \<open>d + 3\<close>.
\<close>

theorem order_arrives_on_third_day_after:
  assumes lt: "lead_time e = 3" and q: "0 < order_quantity e"
    and placed: "inventory (fulfil d0 (delivery_check s0)) \<le> reorder_point e \<and>
                 on_order (fulfil d0 (delivery_check s0)) = 0"
    and s1: "s1 = day_transition e d0 s0"
    and s2: "s2 = day_transition e d1 (s1\<lparr>rng := r1\<rparr>)"
    and s3: "s3 = day_transition e d2 (s2\<lparr>rng := r2\<rparr>)"
  shows "on_order s1 = order_quantity e \<and> days_until_delivery s1 = 3 \<and>
         delivery_check s1 = s1 \<and>
         delivery_check s2 = s2 \<and>
         delivery_check s3 = s3\<lparr>inventory := inventory s3 + order_quantity e, on_order := 0\<rparr>"
proof -
  from placed lt have a1: "on_order s1 = order_quantity e" "days_until_delivery s1 = 3"
    unfolding s1 by (simp_all add: day_transition_def record_level_def reorder_decision_def)
  then have c1: "delivery_check s1 = s1" by (simp add: delivery_check_def)
  from a1 q have a2: "on_order s2 = order_quantity e" "days_until_delivery s2 = 2"
    unfolding s2
    by (simp_all add: day_transition_def record_level_def reorder_decision_def fulfil_def
        delivery_check_def)
  then have c2: "delivery_check s2 = s2" by (simp add: delivery_check_def)
  from a2 q have a3: "on_order s3 = order_quantity e" "days_until_delivery s3 = 1"
    unfolding s3
    by (simp_all add: day_transition_def record_level_def reorder_decision_def fulfil_def
        delivery_check_def)
  then have c3: "delivery_check s3 =
      s3\<lparr>inventory := inventory s3 + order_quantity e, on_order := 0\<rparr>"
    by (simp add: delivery_check_def)
  from a1 c1 c2 c3 show ?thesis by simp
qed

theorem order_arrives_on_third_day_after_witness:
  "lead_time \<lparr>avg_daily_demand = 50, demand_std = 0, reorder_point = 60,
       order_quantity = 500, lead_time = 3\<rparr> = 3 \<and>
   0 < order_quantity \<lparr>avg_daily_demand = 50, demand_std = 0, reorder_point = 60,
       order_quantity = 500, lead_time = 3\<rparr> \<and>
   fulfil 50 (delivery_check (initial_state 100 (sconst 0))) =
     \<lparr>inventory = 50, on_order = 0, days_until_delivery = 0, stockouts = 0,
      inventory_levels = [], rng = sconst 0\<rparr> \<and>
   day_transition \<lparr>avg_daily_demand = 50, demand_std = 0, reorder_point = 60,
       order_quantity = 500, lead_time = 3\<rparr> 50 (initial_state 100 (sconst 0)) =
     \<lparr>inventory = 50, on_order = 500, days_until_delivery = 3, stockouts = 0,
      inventory_levels = [50], rng = sconst 0\<rparr> \<and>
   day_transition \<lparr>avg_daily_demand = 50, demand_std = 0, reorder_point = 60,
       order_quantity = 500, lead_time = 3\<rparr> 50
     \<lparr>inventory = 50, on_order = 500, days_until_delivery = 3, stockouts = 0,
      inventory_levels = [50], rng = sconst 0\<rparr> =
     \<lparr>inventory = 0, on_order = 500, days_until_delivery = 2, stockouts = 0,
      inventory_levels = [50, 0], rng = sconst 0\<rparr> \<and>
   day_transition \<lparr>avg_daily_demand = 50, demand_std = 0, reorder_point = 60,
       order_quantity = 500, lead_time = 3\<rparr> 50
     \<lparr>inventory = 0, on_order = 500, days_until_delivery = 2, stockouts = 0,
      inventory_levels = [50, 0], rng = sconst 0\<rparr> =
     \<lparr>inventory = 0, on_order = 500, days_until_delivery = 1, stockouts = 1,
      inventory_levels = [50, 0, 0], rng = sconst 0\<rparr> \<and>
   delivery_check \<lparr>inventory = 0, on_order = 500, days_until_delivery = 1, stockouts = 1,
      inventory_levels = [50, 0, 0], rng = sconst 0\<rparr> =
     \<lparr>inventory = 500, on_order = 0, days_until_delivery = 1, stockouts = 1,
      inventory_levels = [50, 0, 0], rng = sconst 0\<rparr>"
proof -
  let ?e = "\<lparr>avg_daily_demand = 50, demand_std = 0, reorder_point = 60,
             order_quantity = 500, lead_time = 3\<rparr>"
  let ?s0 = "initial_state 100 (sconst 0)"
  let ?s1 = "\<lparr>inventory = 50, on_order = 500, days_until_delivery = 3, stockouts = 0,
              inventory_levels = [50], rng = sconst 0\<rparr> :: sim_state"
  let ?s2 = "\<lparr>inventory = 0, on_order = 500, days_until_delivery = 2, stockouts = 0,
              inventory_levels = [50, 0], rng = sconst 0\<rparr> :: sim_state"
  let ?s3 = "\<lparr>inventory = 0, on_order = 500, days_until_delivery = 1, stockouts = 1,
              inventory_levels = [50, 0, 0], rng = sconst 0\<rparr> :: sim_state"
  have lt: "lead_time ?e = 3" and q: "0 < order_quantity ?e" by simp_all
  have f: "fulfil 50 (delivery_check ?s0) =
      \<lparr>inventory = 50, on_order = 0, days_until_delivery = 0, stockouts = 0,
       inventory_levels = [], rng = sconst 0\<rparr>"
    by (simp add: fulfil_def delivery_check_def initial_state_def)
  then have placed: "inventory (fulfil 50 (delivery_check ?s0)) \<le> reorder_point ?e \<and>
      on_order (fulfil 50 (delivery_check ?s0)) = 0"
    by simp
  have s1: "?s1 = day_transition ?e 50 ?s0"
    by (simp add: day_transition_def record_level_def reorder_decision_def f)
  have s2: "?s2 = day_transition ?e 50 (?s1\<lparr>rng := sconst 0\<rparr>)"
    by (simp add: day_transition_def record_level_def reorder_decision_def fulfil_def
        delivery_check_def)
  have s3: "?s3 = day_transition ?e 50 (?s2\<lparr>rng := sconst 0\<rparr>)"
    by (simp add: day_transition_def record_level_def reorder_decision_def fulfil_def
        delivery_check_def)
  from order_arrives_on_third_day_after [OF lt q placed s1 s2 s3]
  have "delivery_check ?s3 = ?s3\<lparr>inventory := inventory ?s3 + order_quantity ?e, on_order := 0\<rparr>"
    by blast
  then have "delivery_check ?s3 =
      \<lparr>inventory = 500, on_order = 0, days_until_delivery = 1, stockouts = 1,
       inventory_levels = [50, 0, 0], rng = sconst 0\<rparr>"
    by simp
  moreover from s2 have "day_transition ?e 50 ?s1 = ?s2" by simp
  moreover from s3 have "day_transition ?e 50 ?s2 = ?s3" by simp
  ultimately show ?thesis using f s1 [symmetric] by simp
qed

subsection \<open>C2: at most one outstanding order\<close>

lemma order_invariant_day:
  assumes "1 \<le> lead_time e" and "on_order s = 0 \<or> 0 < days_until_delivery s"
  shows "on_order (day_transition e d s) = 0 \<or> 0 < days_until_delivery (day_transition e d s)"
  using assms
  by (auto simp add: day_transition_def record_level_def reorder_decision_def
      fulfil_def delivery_check_def)

text \<open>
  C2. The engine's contract is \<open>lead_time \<ge> 1\<close>. Then, after any number \<open>k\<close> of days
  of a run, an order that is outstanding (\<open>on_order \<noteq> 0\<close>) has a positive countdown; and
  on the next day, for any demand \<open>d\<close>, if an order is outstanding when the reorder
  decision is taken (in the state \<open>t\<close>, after the delivery check and the fulfilment), the
  decision places no order: it leaves \<open>on_order\<close> as it is and only counts down by one,
  to a countdown that is still positive.
\<close>

theorem single_outstanding_order:
  assumes lt: "1 \<le> lt"
    and reach: "state_after avg std r initial_stock rop qty lt k = Inr s"
    and t: "t = fulfil d (delivery_check (s\<lparr>rng := r'\<rparr>))"
    and e: "e = \<lparr>avg_daily_demand = avg, demand_std = std, reorder_point = rop,
                 order_quantity = qty, lead_time = lt\<rparr>"
  shows "(on_order s \<noteq> 0 \<longrightarrow> 0 < days_until_delivery s) \<and>
         (on_order t \<noteq> 0 \<longrightarrow>
            reorder_decision e t = t\<lparr>days_until_delivery := days_until_delivery t - 1\<rparr> \<and>
            0 < days_until_delivery t - 1)"
proof -
  let ?I = "\<lambda>u. on_order u = 0 \<or> 0 < days_until_delivery u"
  from reach have f: "day_loop e k (initial_state initial_stock r) = Inr s"
    by (simp add: state_after_def e)
  have i0: "?I (initial_state initial_stock r)" by (simp add: initial_state_def)
  have inv: "?I s"
  proof (rule day_loop_invariant [where I = ?I, OF _ i0 f])
    fix d and u :: sim_state
    assume "?I u"
    then have "?I (u\<lparr>rng := stl (rng u)\<rparr>)" by simp
    with lt show "?I (day_transition e d (u\<lparr>rng := stl (rng u)\<rparr>))"
      by (intro order_invariant_day) (simp_all add: e)
  qed
  have "reorder_decision e t = t\<lparr>days_until_delivery := days_until_delivery t - 1\<rparr> \<and>
        0 < days_until_delivery t - 1" if "on_order t \<noteq> 0"
    using that inv unfolding t
    by (auto simp add: reorder_decision_def fulfil_def delivery_check_def split: if_splits)
  with inv show ?thesis by blast
qed

theorem single_outstanding_order_witness:
  "(1::int) \<le> 3 \<and>
   state_after 50 0 (sconst 0) 100 60 500 3 1 =
     Inr \<lparr>inventory = 50, on_order = 500, days_until_delivery = 3, stockouts = 0,
          inventory_levels = [50], rng = sconst 0\<rparr> \<and>
   fulfil 50 (delivery_check \<lparr>inventory = 50, on_order = 500, days_until_delivery = 3,
       stockouts = 0, inventory_levels = [50], rng = sconst 0\<rparr>) =
     \<lparr>inventory = 0, on_order = 500, days_until_delivery = 3, stockouts = 0,
      inventory_levels = [50], rng = sconst 0\<rparr> \<and>
   reorder_decision \<lparr>avg_daily_demand = 50, demand_std = 0, reorder_point = 60,
       order_quantity = 500, lead_time = 3\<rparr>
     \<lparr>inventory = 0, on_order = 500, days_until_delivery = 3, stockouts = 0,
      inventory_levels = [50], rng = sconst 0\<rparr> =
     \<lparr>inventory = 0, on_order = 500, days_until_delivery = 2, stockouts = 0,
      inventory_levels = [50], rng = sconst 0\<rparr>"
proof -
  let ?s = "\<lparr>inventory = 50, on_order = 500, days_until_delivery = 3, stockouts = 0,
             inventory_levels = [50], rng = sconst 0\<rparr> :: sim_state"
  let ?t = "\<lparr>inventory = 0, on_order = 500, days_until_delivery = 3, stockouts = 0,
             inventory_levels = [50], rng = sconst 0\<rparr> :: sim_state"
  have reach: "state_after 50 0 (sconst 0) 100 60 500 3 1 = Inr ?s"
    by (simp add: state_after_def initial_state_def body_defs)
  have t: "?t = fulfil 50 (delivery_check (?s\<lparr>rng := sconst 0\<rparr>))"
    by (simp add: fulfil_def delivery_check_def)
  have t': "fulfil 50 (delivery_check ?s) = ?t"
    by (simp add: fulfil_def delivery_check_def)
  let ?e = "\<lparr>avg_daily_demand = 50, demand_std = 0, reorder_point = 60,
             order_quantity = 500, lead_time = 3\<rparr>"
  from single_outstanding_order [OF _ reach t refl]
  have "reorder_decision ?e ?t = ?t\<lparr>days_until_delivery := days_until_delivery ?t - 1\<rparr>"
    by simp
  then have "reorder_decision ?e ?t =
      \<lparr>inventory = 0, on_order = 500, days_until_delivery = 2, stockouts = 0,
       inventory_levels = [50], rng = sconst 0\<rparr>"
    by simp
  with reach t' show ?thesis by simp
qed

subsection \<open>C3: the length of the trajectory and the range of the stockout count\<close>

text \<open>
  C3. For a horizon of \<open>days\<close> days, the trajectory a run returns has exactly \<open>days\<close>
  entries (the loop never ends early) and the stockout count it returns lies between
  \<open>0\<close> and \<open>days\<close>.
\<close>

theorem trajectory_length_and_stockout_range:
  assumes "0 \<le> days"
    and "run_simulation avg std r days initial_stock rop qty lt = Inr (levels, count)"
  shows "int (length levels) = days \<and> 0 \<le> count \<and> count \<le> days"
proof -
  let ?e = "\<lparr>avg_daily_demand = avg, demand_std = std, reorder_point = rop,
             order_quantity = qty, lead_time = lt\<rparr>"
  from assms(2) obtain s where
    s: "day_loop ?e (nat days) (initial_state initial_stock r) = Inr s"
    and lv: "levels = inventory_levels s" and c: "count = stockouts s"
    by (auto simp: run_simulation_def state_after_def split: sum.splits)
  from day_loop_levels_stockouts [OF s] assms(1) lv c show ?thesis
    by (simp add: initial_state_def)
qed

theorem trajectory_length_and_stockout_range_witness:
  "(0::int) \<le> 3 \<and>
   run_simulation 50 10 (sconst 0) 3 500 (787/2) 632 7 = Inr ([470, 440, 410], 0) \<and>
   int (length [470, 440, 410 :: real]) = 3 \<and> (0::int) \<le> 0 \<and> (0::int) \<le> 3"
proof -
  have run: "run_simulation 50 10 (sconst 0) 3 500 (787/2) 632 7 = Inr ([470, 440, 410], 0)"
    by (simp add: run_defs body_defs)
  from trajectory_length_and_stockout_range [OF _ run] run show ?thesis by simp
qed

subsection \<open>C4: when a run returns\<close>




subsection \<open>C5: the recorded levels are non-negative, and integers for integral orders\<close>

lemma sqrt_400000_bounds: "632 < sqrt 400000 \<and> sqrt 400000 < 633"
proof
  show "632 < sqrt 400000" by (rule real_less_rsqrt) simp
  show "sqrt 400000 < 633" by (rule real_less_lsqrt) simp_all
qed

lemma sqrt_400000_not_int: "sqrt 400000 \<notin> \<int>"
proof
  assume "sqrt 400000 \<in> \<int>"
  then obtain k :: int where k: "sqrt 400000 = of_int k" by (auto elim: Ints_cases)
  with sqrt_400000_bounds have "632 < (of_int k :: real)" "(of_int k :: real) < 633" by simp_all
  then have "632 < k" "k < 633" by linarith+
  then show False by simp
qed

lemma levels_nonneg_loop:
  assumes "\<forall>x\<in>set (inventory_levels s). 0 \<le> x" and "day_loop e n s = Inr s'"
  shows "\<forall>x\<in>set (inventory_levels s'). 0 \<le> x"
proof (rule day_loop_invariant [where I = "\<lambda>t. \<forall>x\<in>set (inventory_levels t). 0 \<le> x", OF _ assms])
  fix d and t :: sim_state
  assume I: "\<forall>x\<in>set (inventory_levels t). 0 \<le> x"
  let ?t = "t\<lparr>rng := stl (rng t)\<rparr>"
  from day_transition_levels [of e d ?t] day_transition_inventory_nonneg [of e d ?t] I
  show "\<forall>x\<in>set (inventory_levels (day_transition e d ?t)). 0 \<le> x" by auto
qed

lemma integral_day:
  assumes "order_quantity e \<in> \<int>"
    and "inventory s \<in> \<int> \<and> on_order s \<in> \<int> \<and> (\<forall>x\<in>set (inventory_levels s). x \<in> \<int>)"
  shows "inventory (day_transition e d s) \<in> \<int> \<and> on_order (day_transition e d s) \<in> \<int> \<and>
         (\<forall>x\<in>set (inventory_levels (day_transition e d s)). x \<in> \<int>)"
  using assms
  by (simp add: day_transition_def record_level_def reorder_decision_def
      fulfil_def delivery_check_def)

text \<open>
  C5, as stated: the inventory is a non-negative integer after each day's transition, also
  after a delivery has added the order quantity that the EOQ formula computes. It is not
  an integer there: for the default parameters of the widgets the formula yields
  \<open>sqrt 400000\<close>, about 632.46, and the level recorded on the day of the delivery is not
  a whole number. (Demand is 50 a day for \<^verbatim>\<open>demand_std = 0\<close>; the order is placed on
  day 0 and delivered on day 1.)
\<close>

theorem level_after_eoq_delivery_not_integer:
  "calculate_eoq 10000 100 5 = Inr (sqrt 400000) \<and>
   run_simulation 50 0 (sconst 0) 2 100 1000 (sqrt 400000) 1 = Inr ([50, sqrt 400000], 0) \<and>
   sqrt 400000 \<notin> \<int>"
proof -
  have eoq: "calculate_eoq 10000 100 5 = Inr (sqrt 400000)"
    by (simp add: calculate_eoq_def)
  have le: "sqrt 400000 \<le> 1000" using sqrt_400000_bounds by linarith
  have run: "run_simulation 50 0 (sconst 0) 2 100 1000 (sqrt 400000) 1 =
      Inr ([50, sqrt 400000], 0)"
    by (simp add: run_defs body_defs le)
  from eoq run sqrt_400000_not_int show ?thesis by simp
qed

text \<open>
  C5, amended: every level of the returned trajectory, that is the inventory after each
  day's transition, is non-negative; the levels are integers whenever the order quantity
  is an integer.
\<close>

theorem levels_nonneg_and_integral_for_integral_orders:
  assumes "run_simulation avg std r days initial_stock rop qty lt = Inr (levels, count)"
  shows "(\<forall>x\<in>set levels. 0 \<le> x) \<and> (qty \<in> \<int> \<longrightarrow> (\<forall>x\<in>set levels. x \<in> \<int>))"
proof -
  let ?e = "\<lparr>avg_daily_demand = avg, demand_std = std, reorder_point = rop,
             order_quantity = qty, lead_time = lt\<rparr>"
  let ?i = "initial_state initial_stock r"
  from assms obtain sf where f: "day_loop ?e (nat days) ?i = Inr sf"
    and lv: "levels = inventory_levels sf"
    by (auto simp: run_simulation_def state_after_def split: sum.splits)
  have "\<forall>x\<in>set (inventory_levels ?i). 0 \<le> x" by (simp add: initial_state_def)
  from levels_nonneg_loop [OF this f] lv have nonneg: "\<forall>x\<in>set levels. 0 \<le> x" by simp
  have "\<forall>x\<in>set levels. x \<in> \<int>" if q: "qty \<in> \<int>"
  proof -
    let ?I = "\<lambda>t. inventory t \<in> \<int> \<and> on_order t \<in> \<int> \<and>
                 (\<forall>x\<in>set (inventory_levels t). x \<in> \<int>)"
    have i0: "?I ?i" by (simp add: initial_state_def)
    have "?I sf"
    proof (rule day_loop_invariant [where I = ?I, OF _ i0 f])
      fix d and t :: sim_state
      assume "?I t"
      then have "?I (t\<lparr>rng := stl (rng t)\<rparr>)" by simp
      with q show "?I (day_transition ?e d (t\<lparr>rng := stl (rng t)\<rparr>))"
        by (intro integral_day) simp_all
    qed
    with lv show ?thesis by simp
  qed
  with nonneg show ?thesis by blast
qed

theorem levels_nonneg_and_integral_for_integral_orders_witness:
  "run_simulation 50 0 (sconst 0) 2 100 1000 500 1 = Inr ([50, 500], 0) \<and>
   (500::real) \<in> \<int> \<and> (0::real) \<le> 50 \<and> (0::real) \<le> 500 \<and> (50::real) \<in> \<int>"
proof -
  have run: "run_simulation 50 0 (sconst 0) 2 100 1000 500 1 = Inr ([50, 500], 0)"
    by (simp add: run_defs body_defs)
  from levels_nonneg_and_integral_for_integral_orders [OF run] run show ?thesis by simp
qed

subsection \<open>C6: the loop body and the reference transition\<close>

lemma loop_body_reference: "loop_body e s = reference_transition e s"
proof (cases "draw_demand e (rng s)")
  case (Inl x)
  then show ?thesis
    by (simp add: loop_body_def reference_transition_def Let_def split: prod.splits)
next
  case (Inr p)
  obtain d r where p: "p = (d, r)" by (cases p)
  with Inr show ?thesis
    by (simp add: loop_body_def reference_transition_def day_transition_def record_level_def
        reorder_decision_def fulfil_def delivery_check_def Let_def)
qed

lemma day_loop_reference: "day_loop e n s = reference_loop e n s"
  by (induction n arbitrary: s) (simp_all add: loop_body_reference split: sum.splits)

text \<open>
  C6. \<^verbatim>\<open>run_simulation\<close> draws the demand before its delivery check; the reference
  transition of the specification checks the delivery first. The draw reads only the
  random source and the delivery check only the order and its countdown, so for every
  input and every random source the two give the same trajectory and the same stockout
  count, or both raise the same exception.
\<close>

theorem run_simulation_refines_reference:
  "run_simulation avg std r days initial_stock rop qty lt =
   reference_run avg std r days initial_stock rop qty lt"
  by (simp add: run_simulation_def reference_run_def state_after_def day_loop_reference)

subsection \<open>C7: the range of a drawn demand\<close>

text \<open>
  C7. Every demand the generator draws is an integer \<open>d\<close> with
  \<open>max 1 (avg_daily_demand - 2 * demand_std) \<le> d \<le> avg_daily_demand + 2 * demand_std\<close>,
  so \<open>d \<ge> 1\<close>, whatever the state of the random source. The draw yields no demand
  only when that range is empty, where \<^verbatim>\<open>random.randint\<close> raises \<^verbatim>\<open>ValueError\<close>.
\<close>

theorem demand_within_bounds:
  "case draw_demand e r of
     Inr (d, r') \<Rightarrow>
       max 1 (avg_daily_demand e - 2 * demand_std e) \<le> d \<and>
       d \<le> avg_daily_demand e + 2 * demand_std e \<and> 1 \<le> d \<and> r' = stl r
   | Inl x \<Rightarrow>
       x = ValueError \<and>
       avg_daily_demand e + 2 * demand_std e < max 1 (avg_daily_demand e - 2 * demand_std e)"
proof (cases "draw_demand e r")
  case (Inl x)
  then show ?thesis by (auto simp: draw_demand_def randint_def split: if_splits)
next
  case (Inr p)
  obtain d r' where p: "p = (d, r')" by (cases p)
  from Inr p draw_demand_bounds [of e r d r'] draw_demand_rest [of e r d r']
  show ?thesis by auto
qed

subsection \<open>C8: no stock and no order quantity\<close>

lemma zero_stock_day:
  assumes "inventory s = 0" "on_order s = 0" "order_quantity e = 0" "1 \<le> d"
  shows "inventory (day_transition e d s) = 0 \<and> on_order (day_transition e d s) = 0 \<and>
         stockouts (day_transition e d s) = stockouts s + 1 \<and>
         inventory_levels (day_transition e d s) = inventory_levels s @ [0]"
  using assms
  by (simp add: day_transition_def record_level_def reorder_decision_def fulfil_def
      delivery_check_def)

lemma zero_stock_loop:
  assumes q: "order_quantity e = 0"
    and "inventory s = 0 \<and> on_order s = 0" and "day_loop e n s = Inr s'"
  shows "inventory s' = 0 \<and> on_order s' = 0 \<and> stockouts s' = stockouts s + int n \<and>
         inventory_levels s' = inventory_levels s @ replicate n 0"
  using assms(2,3)
proof (induction n arbitrary: s)
  case 0
  then show ?case by simp
next
  case (Suc n)
  from Suc.prems(2) obtain s1 where b: "loop_body e s = Inr s1" and l: "day_loop e n s1 = Inr s'"
    by (auto split: sum.splits)
  from b obtain d where dd: "draw_demand e (rng s) = Inr (d, stl (rng s))"
    and s1: "s1 = day_transition e d (s\<lparr>rng := stl (rng s)\<rparr>)"
    by (rule loop_body_InrD)
  from draw_demand_bounds [OF dd] have d1: "1 \<le> d" by simp
  from Suc.prems(1) have z: "inventory (s\<lparr>rng := stl (rng s)\<rparr>) = 0"
    "on_order (s\<lparr>rng := stl (rng s)\<rparr>) = 0" by simp_all
  from zero_stock_day [OF z q d1] s1
  have one: "inventory s1 = 0 \<and> on_order s1 = 0" "stockouts s1 = stockouts s + 1"
    "inventory_levels s1 = inventory_levels s @ [0]" by simp_all
  from Suc.IH [OF one(1) l] one(2,3) show ?case by (simp add: replicate_app_Cons_same)
qed

text \<open>
  C8. With \<^verbatim>\<open>initial_stock = 0\<close>, \<^verbatim>\<open>order_quantity = 0\<close> and \<^verbatim>\<open>days = 5\<close>, and the
  other inputs valid (a demand range that is not empty), the run returns without error,
  every day is a stockout and the trajectory is all zeros: whatever the random source,
  the reorder point and the lead time are.
\<close>

theorem no_stock_no_orders_five_stockouts:
  assumes "max 1 (avg - 2 * std) \<le> avg + 2 * std"
  shows "run_simulation avg std r 5 0 rop 0 lt = Inr ([0, 0, 0, 0, 0], 5)"
proof -
  let ?e = "\<lparr>avg_daily_demand = avg, demand_std = std, reorder_point = rop,
             order_quantity = 0, lead_time = lt\<rparr>"
  let ?s = "initial_state 0 r"
  from assms have "\<exists>s'. day_loop ?e 5 ?s = Inr s'"
    by (intro day_loop_total) simp
  then obtain s' where s': "day_loop ?e 5 ?s = Inr s'" by blast
  have "inventory ?s = 0 \<and> on_order ?s = 0" by (simp add: initial_state_def)
  from zero_stock_loop [OF _ this s']
  have "stockouts s' = 5" "inventory_levels s' = replicate 5 0"
    by (simp_all add: initial_state_def)
  moreover have "replicate 5 (0::real) = [0, 0, 0, 0, 0]"
    by (simp add: numeral_eq_Suc)
  ultimately show ?thesis using s'
    by (simp add: run_simulation_def state_after_def)
qed

theorem no_stock_no_orders_five_stockouts_witness:
  "max 1 (50 - 2 * 10) \<le> (50 + 2 * 10 :: int) \<and>
   run_simulation 50 10 (sconst 7) 5 0 (787/2) 0 7 = Inr ([0, 0, 0, 0, 0], 5)"
  using no_stock_no_orders_five_stockouts [of 50 10 "sconst 7" "787/2" 7] by simp

subsection \<open>C9: monotonicity of the reorder point\<close>

lemma reorder_point_eq:
  "calculate_reorder_point ppf avg lt sl std = avg * lt + ppf sl * std * sqrt lt"
  by (simp add: calculate_reorder_point_def Let_def)

text \<open>
  C9, as stated: for every service level strictly between 0 and 1 the reorder point is
  non-decreasing in the service level, in the lead time and in the demand's standard
  deviation. The safety stock is \<open>z * demand_std * sqrt lead_time\<close>, and \<open>z\<close> is negative
  for a service level below one half (\<^verbatim>\<open>norm.ppf(0.25)\<close> is about -0.674). For any
  function \<open>ppf\<close> that is negative at \<open>1/4\<close>, at \<open>avg_daily = 50\<close>, \<open>lead_time = 7\<close> and
  \<open>service_level = 1/4\<close> the reorder point for \<open>demand_std = 10\<close> is below the one for
  \<open>demand_std = 1\<close>.
\<close>

theorem reorder_point_decreases_in_demand_std_below_median:
  "\<not> (\<exists>ppf. ppf (1/4) < 0 \<and>
         calculate_reorder_point ppf 50 7 (1/4) 1 \<le> calculate_reorder_point ppf 50 7 (1/4) 10)"
proof
  assume "\<exists>ppf. ppf (1/4) < 0 \<and>
         calculate_reorder_point ppf 50 7 (1/4) 1 \<le> calculate_reorder_point ppf 50 7 (1/4) 10"
  then obtain ppf :: "real \<Rightarrow> real" where z: "ppf (1/4) < 0"
    and le: "calculate_reorder_point ppf 50 7 (1/4) 1 \<le> calculate_reorder_point ppf 50 7 (1/4) 10"
    by blast
  have s: "0 < sqrt (7::real)" by simp
  from z s have "ppf (1/4) * sqrt 7 < 0" by (simp add: mult_neg_pos)
  moreover from le have "ppf (1/4) * sqrt 7 \<le> ppf (1/4) * 10 * sqrt 7"
    by (simp add: reorder_point_eq)
  ultimately show False by simp
qed

text \<open>
  C9, amended. Of \<^verbatim>\<open>norm.ppf\<close> two properties are assumed: it is non-decreasing on the
  open interval from 0 to 1, and it is 0 at \<open>1/2\<close>. For non-negative \<open>avg_daily\<close>,
  \<open>lead_time\<close> and \<open>demand_std\<close>, the reorder point is non-decreasing in the service
  level on that interval; and for a service level of at least \<open>1/2\<close> (the widget offers
  0.80 to 0.99) it is non-decreasing in the lead time (over non-negative lead times) and in
  the demand's standard deviation.
\<close>

theorem reorder_point_monotone:
  assumes ppf_mono: "\<forall>p q. 0 < p \<and> p \<le> q \<and> q < 1 \<longrightarrow> ppf p \<le> ppf q"
    and ppf_median: "ppf (1/2) = 0"
    and avg: "0 \<le> avg" and lt: "0 \<le> lt" and std: "0 \<le> std"
  shows "(\<forall>a b. 0 < a \<and> a \<le> b \<and> b < 1 \<longrightarrow>
            calculate_reorder_point ppf avg lt a std \<le> calculate_reorder_point ppf avg lt b std) \<and>
         (1/2 \<le> sl \<and> sl < 1 \<longrightarrow>
            (\<forall>a b. 0 \<le> a \<and> a \<le> b \<longrightarrow>
               calculate_reorder_point ppf avg a sl std \<le> calculate_reorder_point ppf avg b sl std) \<and>
            (\<forall>a b. a \<le> b \<longrightarrow>
               calculate_reorder_point ppf avg lt sl a \<le> calculate_reorder_point ppf avg lt sl b))"
proof (intro conjI allI impI)
  fix a b :: real
  assume "0 < a \<and> a \<le> b \<and> b < 1"
  with ppf_mono have "ppf a \<le> ppf b" by blast
  moreover from std lt have "0 \<le> std * sqrt lt" by simp
  ultimately have "ppf a * (std * sqrt lt) \<le> ppf b * (std * sqrt lt)"
    by (rule mult_right_mono)
  then show "calculate_reorder_point ppf avg lt a std \<le> calculate_reorder_point ppf avg lt b std"
    by (simp add: reorder_point_eq mult.assoc)
next
  fix a b :: real
  assume sl: "1/2 \<le> sl \<and> sl < 1" and ab: "0 \<le> a \<and> a \<le> b"
  from ppf_mono sl have "ppf (1/2) \<le> ppf sl" by simp
  with ppf_median have z: "0 \<le> ppf sl" by simp
  from ab avg have 1: "avg * a \<le> avg * b" by (simp add: mult_left_mono)
  from ab have "sqrt a \<le> sqrt b" by simp
  moreover from z std have "0 \<le> ppf sl * std" by simp
  ultimately have "ppf sl * std * sqrt a \<le> ppf sl * std * sqrt b" by (rule mult_left_mono)
  with 1 show "calculate_reorder_point ppf avg a sl std \<le> calculate_reorder_point ppf avg b sl std"
    by (simp add: reorder_point_eq)
next
  fix a b :: real
  assume sl: "1/2 \<le> sl \<and> sl < 1" and ab: "a \<le> b"
  from ppf_mono sl have "ppf (1/2) \<le> ppf sl" by simp
  with ppf_median have z: "0 \<le> ppf sl" by simp
  from z ab have "ppf sl * a \<le> ppf sl * b" by (rule mult_left_mono[rotated])
  moreover from lt have "0 \<le> sqrt lt" by simp
  ultimately have "ppf sl * a * sqrt lt \<le> ppf sl * b * sqrt lt" by (rule mult_right_mono)
  then show "calculate_reorder_point ppf avg lt sl a \<le> calculate_reorder_point ppf avg lt sl b"
    by (simp add: reorder_point_eq)
qed

theorem reorder_point_monotone_witness:
  "calculate_reorder_point (\<lambda>p. 2 * p - 1) 50 4 (3/4) 10 = 210 \<and>
   calculate_reorder_point (\<lambda>p. 2 * p - 1) 50 4 (3/4) 10
     \<le> calculate_reorder_point (\<lambda>p. 2 * p - 1) 50 4 (9/10) 10 \<and>
   calculate_reorder_point (\<lambda>p. 2 * p - 1) 50 4 (3/4) 10
     \<le> calculate_reorder_point (\<lambda>p. 2 * p - 1) 50 9 (3/4) 10 \<and>
   calculate_reorder_point (\<lambda>p. 2 * p - 1) 50 4 (3/4) 10
     \<le> calculate_reorder_point (\<lambda>p. 2 * p - 1) 50 4 (3/4) 20"
proof -
  let ?f = "\<lambda>p::real. 2 * p - 1"
  have m: "\<forall>p q. 0 < p \<and> p \<le> q \<and> q < 1 \<longrightarrow> ?f p \<le> ?f q" by simp
  have z: "?f (1/2) = 0" by simp
  have s4: "sqrt 4 = (2::real)" using real_sqrt_abs [of 2] by simp
  have v: "calculate_reorder_point ?f 50 4 (3/4) 10 = 210"
    by (simp add: reorder_point_eq s4)
  from reorder_point_monotone [of ?f 50 4 10 "3/4", OF m z]
  have "(\<forall>a b. 0 < a \<and> a \<le> b \<and> b < 1 \<longrightarrow>
            calculate_reorder_point ?f 50 4 a 10 \<le> calculate_reorder_point ?f 50 4 b 10)"
    and "(\<forall>a b. 0 \<le> a \<and> a \<le> b \<longrightarrow>
            calculate_reorder_point ?f 50 a (3/4) 10 \<le> calculate_reorder_point ?f 50 b (3/4) 10)"
    and "(\<forall>a b. a \<le> b \<longrightarrow>
            calculate_reorder_point ?f 50 4 (3/4) a \<le> calculate_reorder_point ?f 50 4 (3/4) b)"
    by simp_all
  then have "calculate_reorder_point ?f 50 4 (3/4) 10 \<le> calculate_reorder_point ?f 50 4 (9/10) 10"
    and "calculate_reorder_point ?f 50 4 (3/4) 10 \<le> calculate_reorder_point ?f 50 9 (3/4) 10"
    and "calculate_reorder_point ?f 50 4 (3/4) 10 \<le> calculate_reorder_point ?f 50 4 (3/4) 20"
    by simp_all
  with v show ?thesis by blast
qed

subsection \<open>C10: the level recorded on a stockout day\<close>

text \<open>
  C10. Day \<open>k\<close> of a run (counted from 0) takes the state after \<open>k\<close> iterations to
  the state after \<open>k + 1\<close>. On every day of the horizon on which a stockout is recorded
  (the stockout count changes, and then grows by exactly one), the level appended to the
  trajectory for that day is exactly 0.
\<close>

theorem stockout_day_records_zero:
  assumes run: "run_simulation avg std r days initial_stock rop qty lt = Inr (levels, count)"
    and k: "int k < days"
    and before: "state_after avg std r initial_stock rop qty lt k = Inr s"
    and after: "state_after avg std r initial_stock rop qty lt (Suc k) = Inr s'"
    and stockout: "stockouts s' \<noteq> stockouts s"
  shows "levels ! k = 0 \<and> stockouts s' = stockouts s + 1"
proof -
  let ?e = "\<lparr>avg_daily_demand = avg, demand_std = std, reorder_point = rop,
             order_quantity = qty, lead_time = lt\<rparr>"
  let ?i = "initial_state initial_stock r"
  from before have b: "day_loop ?e k ?i = Inr s" by (simp add: state_after_def)
  from after have a: "day_loop ?e (Suc k) ?i = Inr s'" by (simp add: state_after_def)
  from run obtain sf where f: "day_loop ?e (nat days) ?i = Inr sf"
    and lv: "levels = inventory_levels sf"
    by (auto simp: run_simulation_def state_after_def split: sum.splits)
  from a b have body: "loop_body ?e s = Inr s'"
    by (simp add: day_loop_Suc_end del: day_loop.simps)
  then obtain d where s': "s' = day_transition ?e d (s\<lparr>rng := stl (rng s)\<rparr>)"
    by (rule loop_body_InrD)
  from day_transition_stockouts [of ?e d "s\<lparr>rng := stl (rng s)\<rparr>"] stockout s'
  have zero: "inventory s' = 0" and one: "stockouts s' = stockouts s + 1" by auto
  from day_loop_levels_stockouts [OF b] have len: "length (inventory_levels s) = k"
    by (simp add: initial_state_def)
  from day_transition_levels [of ?e d "s\<lparr>rng := stl (rng s)\<rparr>"] s' zero
  have lv': "inventory_levels s' = inventory_levels s @ [0]" by simp
  from k have "nat days = Suc k + (nat days - Suc k)" by simp
  then have "day_loop ?e (nat days) ?i =
      (case day_loop ?e (Suc k) ?i of Inl x \<Rightarrow> Inl x | Inr t \<Rightarrow> day_loop ?e (nat days - Suc k) t)"
    using day_loop_add [of ?e "Suc k" "nat days - Suc k" ?i] by simp
  with a f have rest: "day_loop ?e (nat days - Suc k) s' = Inr sf" by simp
  from day_loop_levels_stockouts [OF rest]
  have tk: "take (length (inventory_levels s')) (inventory_levels sf) = inventory_levels s'"
    by simp
  have "inventory_levels sf ! k = take (Suc k) (inventory_levels sf) ! k" by simp
  also have "take (Suc k) (inventory_levels sf) = inventory_levels s'"
    using tk lv' len by simp
  also have "inventory_levels s' ! k = 0" using lv' len by (simp add: nth_append)
  finally show ?thesis using lv one by simp
qed

theorem stockout_day_records_zero_witness:
  "run_simulation 50 0 (sconst 0) 2 60 0 100 2 = Inr ([10, 0], 1) \<and> int 1 < 2 \<and>
   state_after 50 0 (sconst 0) 60 0 100 2 1 =
     Inr \<lparr>inventory = 10, on_order = 0, days_until_delivery = 0, stockouts = 0,
          inventory_levels = [10], rng = sconst 0\<rparr> \<and>
   state_after 50 0 (sconst 0) 60 0 100 2 (Suc 1) =
     Inr \<lparr>inventory = 0, on_order = 100, days_until_delivery = 2, stockouts = 1,
          inventory_levels = [10, 0], rng = sconst 0\<rparr> \<and>
   (1::int) \<noteq> 0 \<and> [10, 0 :: real] ! 1 = 0 \<and> (1::int) = 0 + 1"
proof -
  have run: "run_simulation 50 0 (sconst 0) 2 60 0 100 2 = Inr ([10, 0], 1)"
    by (simp add: run_defs body_defs)
  have b: "state_after 50 0 (sconst 0) 60 0 100 2 1 =
     Inr \<lparr>inventory = 10, on_order = 0, days_until_delivery = 0, stockouts = 0,
          inventory_levels = [10], rng = sconst 0\<rparr>"
    by (simp add: state_after_def initial_state_def body_defs)
  have a: "state_after 50 0 (sconst 0) 60 0 100 2 (Suc 1) =
     Inr \<lparr>inventory = 0, on_order = 100, days_until_delivery = 2, stockouts = 1,
          inventory_levels = [10, 0], rng = sconst 0\<rparr>"
    by (simp add: state_after_def initial_state_def body_defs)
  from stockout_day_records_zero [OF run _ b a] run a b show ?thesis by simp
qed

end
